theory Spec2Isabelle
  imports Complex_Main
begin

section \<open>Numbers, strings and dictionaries of the Python source\<close>

text \<open>
  Prices and quantities are Python floats in the source. They are modelled as exact
  reals: every statement below is about the arithmetic the code writes down, not about
  the rounding error of IEEE doubles. \<open>round(x, 2)\<close> rounds the value to two decimals,
  ties going to the even neighbour.
\<close>

definition round_half_even :: "real \<Rightarrow> int" where
  "round_half_even y =
     (let f = \<lfloor>y\<rfloor>; d = y - of_int f
      in if d < 1 / 2 then f
         else if 1 / 2 < d then f + 1
         else if even f then f else f + 1)"

definition round2 :: "real \<Rightarrow> real" where
  "round2 x = of_int (round_half_even (x * 100)) / 100"

text \<open>Strings are ASCII character lists; \<open>str.upper\<close>, \<open>str.isupper\<close>, \<open>str.endswith\<close>.\<close>

definition is_lower :: "char \<Rightarrow> bool" where
  "is_lower ch = (97 \<le> (of_char ch :: nat) \<and> (of_char ch :: nat) \<le> 122)"

definition is_upper :: "char \<Rightarrow> bool" where
  "is_upper ch = (65 \<le> (of_char ch :: nat) \<and> (of_char ch :: nat) \<le> 90)"

definition upper_char :: "char \<Rightarrow> char" where
  "upper_char ch = (if is_lower ch then char_of ((of_char ch :: nat) - 32) else ch)"

definition upper :: "string \<Rightarrow> string" where
  "upper s = map upper_char s"

definition isupper :: "string \<Rightarrow> bool" where
  "isupper s = (list_ex is_upper s \<and> \<not> list_ex is_lower s)"

definition endswith :: "string \<Rightarrow> string \<Rightarrow> bool" where
  "endswith s q = (length q \<le> length s \<and> drop (length s - length q) s = q)"

text \<open>
  A Python dict keeps its keys in insertion order: assigning to a key that is present
  replaces the value in place, a new key goes to the end, \<open>del\<close> removes the entry.
\<close>

fun dict_set :: "('k \<times> 'v) list \<Rightarrow> 'k \<Rightarrow> 'v \<Rightarrow> ('k \<times> 'v) list" where
  "dict_set [] k v = [(k, v)]"
| "dict_set ((k', v') # kvs) k v =
     (if k' = k then (k, v) # kvs else (k', v') # dict_set kvs k v)"

definition dict_del :: "('k \<times> 'v) list \<Rightarrow> 'k \<Rightarrow> ('k \<times> 'v) list" where
  "dict_del kvs k = filter (\<lambda>kv. fst kv \<noteq> k) kvs"

definition dict_keys :: "('k \<times> 'v) list \<Rightarrow> 'k list" where
  "dict_keys kvs = map fst kvs"

section \<open>validators.py\<close>

definition valid_quotes :: "string list" where
  "valid_quotes = [''USDT'', ''BUSD'', ''USD'', ''BTC'', ''ETH'']"

definition validate_symbol :: "string \<Rightarrow> bool" where
  "validate_symbol symbol =
     (if symbol = [] \<or> length symbol < 6 then False
      else if \<not> isupper symbol then False
      else if \<not> list_ex (endswith symbol) valid_quotes then False
      else True)"

definition validate_quantity :: "real \<Rightarrow> bool" where
  "validate_quantity quantity = (quantity > 0)"

definition validate_price :: "real \<Rightarrow> bool" where
  "validate_price price = (price > 0)"

definition validate_side :: "string \<Rightarrow> bool" where
  "validate_side side = (upper side \<in> set [''BUY'', ''SELL''])"

section \<open>The exchange gateway\<close>

text \<open>
  The gateway is outside the program. A call either returns a value or raises
  \<open>BinanceAPIException\<close> (code and message) or some other \<open>Exception\<close>. What it answers
  is not determined by the program, so a run is modelled against an arbitrary script of
  replies: the reply to the n-th call of each kind.
\<close>

datatype 'a reply = Ok 'a | ApiError int string | OtherError string

datatype side = BUY | SELL

datatype order_type = LIMIT | MARKET

record order_params =
  p_symbol :: string
  p_side :: string
  p_type :: order_type
  p_quantity :: real
  p_price :: "real option"

definition side_name :: "side \<Rightarrow> string" where
  "side_name s = (case s of BUY \<Rightarrow> ''BUY'' | SELL \<Rightarrow> ''SELL'')"

section \<open>advanced/grid.py\<close>

text \<open>
  \<open>start_grid_trading\<close> (lines 36 to 425) is one long function; the model splits it
  along its comment banners. Validation (76 to 119) is in \<open>start_grid_trading\<close> itself;
  \<open>grid_step\<close> is lines 126 and 127; \<open>place_initial_grid\<close> is the two placement loops (160
  to 240), whose bodies and the replacement placement (326 to 351) are \<open>place_and_track\<close>;
  \<open>monitor_loop\<close> is the loop of lines 262 to 378, \<open>monitor_cycle\<close> one iteration,
  \<open>cycle_body\<close> its \<open>try\<close> block (267 to 368), \<open>process_filled\<close> and \<open>handle_fill\<close> the
  loop over the filled orders (283 to 359), \<open>mirror_order\<close> lines 306 to 318;
  \<open>cancel_remaining\<close> is lines 393 to 400 and \<open>summarize\<close> the returned dictionary (416
  to 425). Logging is left out.
\<close>

record tracked_order =
  side :: side
  price :: real
  grid_level :: nat
  quantity :: real

record grid_config =
  symbol :: string
  quantity_per_grid :: real
  lower_bound :: real
  upper_bound :: real
  num_grids :: int
  monitor_interval_seconds :: int

text \<open>
  The environment of one grid session: the replies of \<open>futures_create_order\<close>,
  \<open>get_open_orders\<close> (reduced to the order ids of the returned records; a record without
  an id makes the comprehension raise, which is a reply \<open>OtherError\<close>) and
  \<open>cancel_order\<close>, each indexed by the number of earlier calls of that kind, and the
  value of the global flag \<open>grid_running\<close> read at the top of the n-th loop iteration
  (\<open>stop_grid\<close> and a keyboard interrupt during the sleep both clear it).
\<close>

record 'k grid_env =
  create_order :: "nat \<Rightarrow> 'k reply"
  get_open_orders :: "nat \<Rightarrow> 'k list reply"
  cancel_order :: "nat \<Rightarrow> unit reply"
  grid_running :: "nat \<Rightarrow> bool"

text \<open>
  The local variables of \<open>start_grid_trading\<close>, together with a log of every gateway
  call made so far (oldest first).
\<close>

record 'k grid_state =
  grid_orders :: "('k \<times> tracked_order) list"
  total_buy_orders_placed :: nat
  total_sell_orders_placed :: nat
  total_buy_fills :: nat
  total_sell_fills :: nat
  cycle_count :: nat
  created :: "order_params list"
  fetched :: nat
  cancel_calls :: "'k list"

definition initial_state :: "'k grid_state" where
  "initial_state =
     \<lparr>grid_orders = [], total_buy_orders_placed = 0, total_sell_orders_placed = 0,
      total_buy_fills = 0, total_sell_fills = 0, cycle_count = 0,
      created = [], fetched = 0, cancel_calls = []\<rparr>"

definition grid_step :: "grid_config \<Rightarrow> real" where
  "grid_step c = (upper_bound c - lower_bound c) / of_int (num_grids c)"

definition limit_order :: "grid_config \<Rightarrow> side \<Rightarrow> real \<Rightarrow> real \<Rightarrow> order_params" where
  "limit_order c sd qty p =
     \<lparr>p_symbol = upper (symbol c), p_side = side_name sd, p_type = LIMIT,
      p_quantity = qty, p_price = Some p\<rparr>"

text \<open>
  One call of \<open>client.client.futures_create_order\<close>: it is logged and answered. Of the
  order parameters the log keeps symbol, side, type, quantity and price; \<open>timeInForce\<close>
  and \<open>recvWindow\<close> are the same in every call.
\<close>

definition futures_create_order ::
  "'k grid_env \<Rightarrow> 'k grid_state \<Rightarrow> order_params \<Rightarrow> 'k grid_state \<times> 'k reply" where
  "futures_create_order env st ps =
     (st\<lparr>created := created st @ [ps]\<rparr>, create_order env (length (created st)))"

text \<open>
  One placement attempt: on success the order is tracked under the returned id and the
  counter of its side goes up; on either exception nothing but the log changes.
\<close>

definition place_and_track ::
  "'k grid_env \<Rightarrow> grid_config \<Rightarrow> 'k grid_state \<Rightarrow> tracked_order \<Rightarrow> 'k grid_state" where
  "place_and_track env c st ord =
     (case futures_create_order env st (limit_order c (side ord) (quantity ord) (price ord)) of
        (st1, Ok order_id) \<Rightarrow>
          (let st2 = st1\<lparr>grid_orders := dict_set (grid_orders st1) order_id ord\<rparr>
           in if side ord = BUY
              then st2\<lparr>total_buy_orders_placed := total_buy_orders_placed st2 + 1\<rparr>
              else st2\<lparr>total_sell_orders_placed := total_sell_orders_placed st2 + 1\<rparr>)
      | (st1, _) \<Rightarrow> st1)"

definition initial_buy :: "grid_config \<Rightarrow> nat \<Rightarrow> tracked_order" where
  "initial_buy c i =
     \<lparr>side = BUY, price = round2 (lower_bound c + of_nat i * grid_step c),
      grid_level = i, quantity = quantity_per_grid c\<rparr>"

definition initial_sell :: "grid_config \<Rightarrow> nat \<Rightarrow> tracked_order" where
  "initial_sell c i =
     \<lparr>side = SELL, price = round2 (upper_bound c - of_nat i * grid_step c),
      grid_level = nat (num_grids c) + i, quantity = quantity_per_grid c\<rparr>"

text \<open>The two \<open>for i in range(num_grids)\<close> loops: all BUY orders, then all SELL orders.\<close>

definition initial_ladder :: "grid_config \<Rightarrow> tracked_order list" where
  "initial_ladder c =
     map (initial_buy c) [0..<nat (num_grids c)] @ map (initial_sell c) [0..<nat (num_grids c)]"

definition place_initial_grid ::
  "'k grid_env \<Rightarrow> grid_config \<Rightarrow> 'k grid_state \<Rightarrow> 'k grid_state" where
  "place_initial_grid env c st = foldl (place_and_track env c) st (initial_ladder c)"

text \<open>
  The mirror of a filled order: the opposite side one grid step away, the price rounded
  to two decimals, grid level and quantity reused.
\<close>

definition mirror_order :: "grid_config \<Rightarrow> tracked_order \<Rightarrow> tracked_order" where
  "mirror_order c order_info =
     (if side order_info = BUY
      then \<lparr>side = SELL, price = round2 (price order_info + grid_step c),
            grid_level = grid_level order_info, quantity = quantity order_info\<rparr>
      else \<lparr>side = BUY, price = round2 (price order_info - grid_step c),
            grid_level = grid_level order_info, quantity = quantity order_info\<rparr>)"

text \<open>
  The body of \<open>for order_id in filled_order_ids\<close> once \<open>order_info\<close> has been read:
  count the fill, delete the entry, and place the mirror unless its price is outside the
  bounds (\<open>continue\<close>). A failed placement is caught inside the body.
\<close>

definition handle_fill ::
  "'k grid_env \<Rightarrow> grid_config \<Rightarrow> 'k grid_state \<Rightarrow> 'k \<Rightarrow> tracked_order \<Rightarrow> 'k grid_state" where
  "handle_fill env c st order_id order_info =
     (let st1 = (if side order_info = BUY
                 then st\<lparr>total_buy_fills := total_buy_fills st + 1\<rparr>
                 else st\<lparr>total_sell_fills := total_sell_fills st + 1\<rparr>);
          st2 = st1\<lparr>grid_orders := dict_del (grid_orders st1) order_id\<rparr>;
          new = mirror_order c order_info
      in if price new < lower_bound c \<or> price new > upper_bound c then st2
         else place_and_track env c st2 new)"

datatype py_exception = KeyError | GatewayError

text \<open>
  The loop over the filled ids. \<open>grid_orders[order_id]\<close> raises \<open>KeyError\<close> for an id
  that is no longer tracked; the exception leaves the loop with the state as it is.
\<close>

fun process_filled ::
  "'k grid_env \<Rightarrow> grid_config \<Rightarrow> 'k grid_state \<Rightarrow> 'k list \<Rightarrow> 'k grid_state \<times> py_exception option" where
  "process_filled env c st [] = (st, None)"
| "process_filled env c st (order_id # rest) =
     (case map_of (grid_orders st) order_id of
        None \<Rightarrow> (st, Some KeyError)
      | Some order_info \<Rightarrow> process_filled env c (handle_fill env c st order_id order_info) rest)"

definition filled_order_ids :: "'k grid_state \<Rightarrow> 'k list \<Rightarrow> 'k list" where
  "filled_order_ids st open_order_ids =
     filter (\<lambda>order_id. order_id \<notin> set open_order_ids) (dict_keys (grid_orders st))"

text \<open>The inner \<open>try\<close> block of one monitoring cycle, with the exception it may end in.\<close>

definition cycle_body ::
  "'k grid_env \<Rightarrow> grid_config \<Rightarrow> 'k grid_state \<Rightarrow> 'k grid_state \<times> py_exception option" where
  "cycle_body env c st =
     (let st1 = st\<lparr>fetched := fetched st + 1\<rparr>
      in case get_open_orders env (fetched st) of
           Ok open_order_ids \<Rightarrow> process_filled env c st1 (filled_order_ids st1 open_order_ids)
         | _ \<Rightarrow> (st1, Some GatewayError))"

text \<open>
  One iteration of \<open>while grid_running\<close>: the cycle counter goes up, the body runs, and
  both \<open>except\<close> clauses only log.
\<close>

definition monitor_cycle :: "'k grid_env \<Rightarrow> grid_config \<Rightarrow> 'k grid_state \<Rightarrow> 'k grid_state" where
  "monitor_cycle env c st = fst (cycle_body env c (st\<lparr>cycle_count := cycle_count st + 1\<rparr>))"

text \<open>
  The monitoring loop runs for as long as the flag is set, possibly for ever: \<open>None\<close>
  is a session that never leaves the loop. The sleep at the end of an iteration changes
  no variable and is left out; a keyboard interrupt is taken to arrive during that sleep,
  where it has the effect of a cleared flag.
\<close>

partial_function (option) monitor_loop ::
  "'k grid_env \<Rightarrow> grid_config \<Rightarrow> 'k grid_state \<Rightarrow> 'k grid_state option" where
  "monitor_loop env c st =
     (if grid_running env (cycle_count st) then monitor_loop env c (monitor_cycle env c st)
      else Some st)"

text \<open>
  Shutdown: one \<open>cancel_order\<close> call for every key of the tracker, counting the calls
  that did not raise. The tracker itself is left as it is.
\<close>

definition cancel_one :: "'k grid_env \<Rightarrow> 'k grid_state \<times> nat \<Rightarrow> 'k \<Rightarrow> 'k grid_state \<times> nat" where
  "cancel_one env acc order_id =
     (let st = fst acc; cancelled_count = snd acc;
          st1 = st\<lparr>cancel_calls := cancel_calls st @ [order_id]\<rparr>
      in case cancel_order env (length (cancel_calls st)) of
           Ok _ \<Rightarrow> (st1, cancelled_count + 1)
         | _ \<Rightarrow> (st1, cancelled_count))"

definition cancel_remaining :: "'k grid_env \<Rightarrow> 'k grid_state \<Rightarrow> 'k grid_state \<times> nat" where
  "cancel_remaining env st = foldl (cancel_one env) (st, 0) (dict_keys (grid_orders st))"

record grid_summary =
  success :: bool
  cycles :: nat
  total_buy_orders :: nat
  total_sell_orders :: nat
  buy_fills :: nat
  sell_fills :: nat
  orders_cancelled :: nat
  total_trades :: nat

definition summarize :: "'k grid_state \<times> nat \<Rightarrow> grid_summary" where
  "summarize r =
     (let st = fst r; cancelled_count = snd r
      in \<lparr>success = True, cycles = cycle_count st,
          total_buy_orders = total_buy_orders_placed st,
          total_sell_orders = total_sell_orders_placed st,
          buy_fills = total_buy_fills st, sell_fills = total_sell_fills st,
          orders_cancelled = cancelled_count,
          total_trades = total_buy_fills st + total_sell_fills st\<rparr>)"

text \<open>
  \<open>start_grid_trading\<close> returns \<open>None\<close> (here \<open>Failed\<close>) or the summary dictionary. The
  model returns the final state with it, so that the gateway log and the tracker can be
  inspected. The outer \<open>None\<close> is a session whose loop never ends.
\<close>

datatype 'a returned = Failed | Returned 'a

definition valid_config :: "grid_config \<Rightarrow> bool" where
  "valid_config c =
     (validate_symbol (symbol c) \<and> validate_quantity (quantity_per_grid c) \<and>
      validate_price (lower_bound c) \<and> validate_price (upper_bound c) \<and>
      \<not> upper_bound c \<le> lower_bound c \<and> \<not> num_grids c \<le> 0 \<and>
      \<not> monitor_interval_seconds c \<le> 0)"

definition start_grid_trading ::
  "'k grid_env \<Rightarrow> grid_config \<Rightarrow> (grid_summary returned \<times> 'k grid_state) option" where
  "start_grid_trading env c =
     (if \<not> validate_symbol (symbol c) then Some (Failed, initial_state)
      else if \<not> validate_quantity (quantity_per_grid c) then Some (Failed, initial_state)
      else if \<not> validate_price (lower_bound c) then Some (Failed, initial_state)
      else if \<not> validate_price (upper_bound c) then Some (Failed, initial_state)
      else if upper_bound c \<le> lower_bound c then Some (Failed, initial_state)
      else if num_grids c \<le> 0 then Some (Failed, initial_state)
      else if monitor_interval_seconds c \<le> 0 then Some (Failed, initial_state)
      else
        let st1 = place_initial_grid env c initial_state
        in if length (grid_orders st1) = 0 then Some (Failed, st1)
           else map_option (\<lambda>st2. let r = cancel_remaining env st2 in (Returned (summarize r), fst r))
                  (monitor_loop env c st1))"

section \<open>advanced/twap.py\<close>

text \<open>
  \<open>execute_twap_order\<close> (lines 24 to 234): validation (61 to 94) is in the function
  itself, \<open>twap_chunk\<close> is the loop body (123 to 196), \<open>twap_run\<close> the loop with the chunk
  quantity of line 101, and \<open>twap_report\<close> the summary (212 to 234). The event log records
  every submitted order and every sleep.
\<close>

text \<open>
  The reply to a market order, as far as the engine reads it: \<open>executedQty\<close> and
  \<open>avgPrice\<close> after \<open>float(...)\<close> (a reply that cannot be read so raises, and is an
  \<open>OtherError\<close>), \<open>orderId\<close> and \<open>status\<close>.
\<close>

record 'k fill_report =
  orderId :: 'k
  executedQty :: real
  avgPrice :: real
  status :: string

record 'k executed_order =
  chunk_number :: int
  order_id :: 'k
  executed_qty :: real
  avg_price :: real
  order_status :: string

text \<open>\<open>error_code\<close> is \<open>None\<close> where the source stores the string \<open>UNKNOWN\<close>.\<close>

record failed_order =
  failed_chunk_number :: int
  error_code :: "int option"
  error_message :: string

datatype twap_event = Submit order_params | Sleep int

record 'k twap_state =
  executed_orders :: "'k executed_order list"
  failed_orders :: "failed_order list"
  total_executed_qty :: real
  events :: "twap_event list"

definition market_order :: "string \<Rightarrow> string \<Rightarrow> real \<Rightarrow> order_params" where
  "market_order symb sd chunk_quantity =
     \<lparr>p_symbol = upper symb, p_side = upper sd, p_type = MARKET,
      p_quantity = chunk_quantity, p_price = None\<rparr>"

text \<open>
  The body of \<open>for i in range(num_orders)\<close>; \<open>market_reply i\<close> is the gateway's answer
  to the order of iteration \<open>i\<close>.
\<close>

definition twap_chunk ::
  "(nat \<Rightarrow> 'k fill_report reply) \<Rightarrow> string \<Rightarrow> string \<Rightarrow> real \<Rightarrow> int \<Rightarrow> int \<Rightarrow>
   'k twap_state \<Rightarrow> nat \<Rightarrow> 'k twap_state" where
  "twap_chunk market_reply symb sd chunk_quantity num_orders interval_seconds st i =
     (let chunk_no = int i + 1;
          st1 = st\<lparr>events := events st @ [Submit (market_order symb sd chunk_quantity)]\<rparr>;
          st2 = (case market_reply i of
                   Ok response \<Rightarrow>
                     st1\<lparr>executed_orders := executed_orders st1 @
                            [\<lparr>chunk_number = chunk_no, order_id = orderId response,
                              executed_qty = executedQty response, avg_price = avgPrice response,
                              order_status = status response\<rparr>],
                         total_executed_qty := total_executed_qty st1 + executedQty response\<rparr>
                 | ApiError code message \<Rightarrow>
                     st1\<lparr>failed_orders := failed_orders st1 @
                            [\<lparr>failed_chunk_number = chunk_no, error_code = Some code,
                              error_message = message\<rparr>]\<rparr>
                 | OtherError message \<Rightarrow>
                     st1\<lparr>failed_orders := failed_orders st1 @
                            [\<lparr>failed_chunk_number = chunk_no, error_code = None,
                              error_message = message\<rparr>]\<rparr>)
      in if chunk_no < num_orders
         then st2\<lparr>events := events st2 @ [Sleep interval_seconds]\<rparr>
         else st2)"

record 'k twap_summary =
  twap_success :: bool
  total_chunks :: int
  executed_chunks :: nat
  failed_chunks :: nat
  target_quantity :: real
  executed_quantity :: real
  executed_orders_out :: "'k executed_order list"
  failed_orders_out :: "failed_order list"
  avg_execution_price :: real

definition twap_start :: "'k twap_state" where
  "twap_start = \<lparr>executed_orders = [], failed_orders = [], total_executed_qty = 0, events = []\<rparr>"

definition total_value :: "'k executed_order list \<Rightarrow> real" where
  "total_value orders = sum_list (map (\<lambda>order. executed_qty order * avg_price order) orders)"

definition twap_report :: "real \<Rightarrow> int \<Rightarrow> 'k twap_state \<Rightarrow> 'k twap_summary" where
  "twap_report total_quantity num_orders st =
     \<lparr>twap_success = (length (failed_orders st) = 0),
      total_chunks = num_orders,
      executed_chunks = length (executed_orders st),
      failed_chunks = length (failed_orders st),
      target_quantity = total_quantity,
      executed_quantity = total_executed_qty st,
      executed_orders_out = executed_orders st,
      failed_orders_out = failed_orders st,
      avg_execution_price =
        (if executed_orders st \<noteq> []
         then (if total_executed_qty st > 0
               then total_value (executed_orders st) / total_executed_qty st else 0)
         else 0)\<rparr>"


definition twap_run ::
  "(nat \<Rightarrow> 'k fill_report reply) \<Rightarrow> string \<Rightarrow> string \<Rightarrow> real \<Rightarrow> int \<Rightarrow> int \<Rightarrow> 'k twap_state" where
  "twap_run market_reply symb sd total_quantity num_orders interval_seconds =
     foldl (twap_chunk market_reply symb sd (total_quantity / of_int num_orders)
              num_orders interval_seconds)
       twap_start [0..<nat num_orders]"

definition execute_twap_order ::
  "(nat \<Rightarrow> 'k fill_report reply) \<Rightarrow> string \<Rightarrow> string \<Rightarrow> real \<Rightarrow> int \<Rightarrow> int \<Rightarrow>
   'k twap_summary returned \<times> twap_event list" where
  "execute_twap_order market_reply symb sd total_quantity num_orders interval_seconds =
     (if \<not> validate_symbol symb then (Failed, [])
      else if \<not> validate_side sd then (Failed, [])
      else if \<not> validate_quantity total_quantity then (Failed, [])
      else if num_orders \<le> 0 then (Failed, [])
      else if interval_seconds \<le> 0 then (Failed, [])
      else
        let st = twap_run market_reply symb sd total_quantity num_orders interval_seconds
        in (Returned (twap_report total_quantity num_orders st), events st))"

declare monitor_loop.simps [code]

section \<open>Reading the logs; a cycle as the specification describes it\<close>

text \<open>The market orders and the sleeps of a TWAP event log, in order.\<close>

fun submitted :: "twap_event list \<Rightarrow> order_params list" where
  "submitted [] = []"
| "submitted (Submit ps # es) = ps # submitted es"
| "submitted (Sleep t # es) = submitted es"

fun sleeps :: "twap_event list \<Rightarrow> int list" where
  "sleeps [] = []"
| "sleeps (Submit ps # es) = sleeps es"
| "sleeps (Sleep t # es) = t # sleeps es"


definition settle_fills :: "'k grid_state \<Rightarrow> 'k list \<Rightarrow> 'k grid_state" where
  "settle_fills st ks =
     st\<lparr>grid_orders := filter (\<lambda>kv. fst kv \<notin> set ks) (grid_orders st),
        total_buy_fills := total_buy_fills st +
          length (filter (\<lambda>k. side (the (map_of (grid_orders st) k)) = BUY) ks),
        total_sell_fills := total_sell_fills st +
          length (filter (\<lambda>k. side (the (map_of (grid_orders st) k)) \<noteq> BUY) ks)\<rparr>"

section \<open>Example sessions\<close>

text \<open>
  The configuration of the docstring of \<open>start_grid_trading\<close>, and a gateway that
  accepts every order (the n-th order gets the id n), reports no open order in the first
  cycle, and a stop signal that arrives during the first cycle.
\<close>

definition example_config :: grid_config where
  "example_config =
     \<lparr>symbol = ''BTCUSDT'', quantity_per_grid = 1 / 1000, lower_bound = 40000,
      upper_bound = 50000, num_grids = 5, monitor_interval_seconds = 60\<rparr>"

definition example_env :: "nat grid_env" where
  "example_env =
     \<lparr>create_order = (\<lambda>n. Ok n), get_open_orders = (\<lambda>n. Ok []),
      cancel_order = (\<lambda>n. Ok ()), grid_running = (\<lambda>n. n < 1)\<rparr>"

text \<open>The same configuration with the bounds exchanged.\<close>

definition inverted_config :: grid_config where
  "inverted_config =
     \<lparr>symbol = ''BTCUSDT'', quantity_per_grid = 1 / 1000, lower_bound = 50000,
      upper_bound = 40000, num_grids = 5, monitor_interval_seconds = 60\<rparr>"

text \<open>
  A gateway that rejects every second order and never answers \<open>get_open_orders\<close>; the
  stop signal arrives during the second cycle.
\<close>

definition flaky_env :: "nat grid_env" where
  "flaky_env =
     \<lparr>create_order = (\<lambda>n. if even n then Ok n else ApiError (- 2010) ''rejected''),
      get_open_orders = (\<lambda>n. OtherError ''timeout''),
      cancel_order = (\<lambda>n. Ok ()), grid_running = (\<lambda>n. n < 2)\<rparr>"

text \<open>
  A gateway that accepts the first two orders only, reports order 0 as no longer open in
  the first cycle, fails to answer \<open>get_open_orders\<close> afterwards and fails every
  cancellation; the stop signal arrives during the second cycle.
\<close>

definition hostile_env :: "nat grid_env" where
  "hostile_env =
     \<lparr>create_order = (\<lambda>n. if n < 2 then Ok n else ApiError (- 2010) ''rejected''),
      get_open_orders = (\<lambda>n. if n = 0 then Ok [1] else ApiError (- 1003) ''rate limit''),
      cancel_order = (\<lambda>n. OtherError ''connection reset''),
      grid_running = (\<lambda>n. n < 2)\<rparr>"



text \<open>
  A grid whose lower bound has more than two decimals, one level from 100.004 to 200, with
  a gateway that reports order 1, the SELL order at 200, as no longer open.
\<close>

definition subcent_config :: grid_config where
  "subcent_config =
     \<lparr>symbol = ''BTCUSDT'', quantity_per_grid = 1 / 1000, lower_bound = 100004 / 1000,
      upper_bound = 200, num_grids = 1, monitor_interval_seconds = 60\<rparr>"


text \<open>
  A TWAP run of total quantity 1 in 3 chunks, 5 seconds apart, whose second order the
  gateway rejects.
\<close>

definition thirds_market :: "nat \<Rightarrow> nat fill_report reply" where
  "thirds_market i =
     (if i = 1 then ApiError (- 1021) ''timestamp''
      else Ok \<lparr>orderId = i, executedQty = 1 / 3, avgPrice = 100 + of_nat i, status = ''FILLED''\<rparr>)"

section \<open>What the helper functions leave unchanged\<close>

lemma place_and_track_frame [simp]:
  "cycle_count (place_and_track env c st ord) = cycle_count st"
  "fetched (place_and_track env c st ord) = fetched st"
  "cancel_calls (place_and_track env c st ord) = cancel_calls st"
  "total_buy_fills (place_and_track env c st ord) = total_buy_fills st"
  "total_sell_fills (place_and_track env c st ord) = total_sell_fills st"
  "created (place_and_track env c st ord) =
     created st @ [limit_order c (side ord) (quantity ord) (price ord)]"
  by (simp_all add: place_and_track_def futures_create_order_def Let_def split: reply.splits)

lemma handle_fill_frame [simp]:
  "cycle_count (handle_fill env c st k info) = cycle_count st"
  "fetched (handle_fill env c st k info) = fetched st"
  "cancel_calls (handle_fill env c st k info) = cancel_calls st"
  by (simp_all add: handle_fill_def Let_def)

lemma process_filled_frame [simp]:
  "cycle_count (fst (process_filled env c st ks)) = cycle_count st"
  "fetched (fst (process_filled env c st ks)) = fetched st"
  "cancel_calls (fst (process_filled env c st ks)) = cancel_calls st"
  by (induction ks arbitrary: st; simp split: option.splits)+

lemma monitor_cycle_frame [simp]:
  "cycle_count (monitor_cycle env c st) = cycle_count st + 1"
  "fetched (monitor_cycle env c st) = fetched st + 1"
  "cancel_calls (monitor_cycle env c st) = cancel_calls st"
  by (simp_all add: monitor_cycle_def cycle_body_def Let_def split: reply.splits)

section \<open>The monitoring loop\<close>



lemma cycle_count_funpow [simp]:
  "cycle_count ((monitor_cycle env c ^^ n) st) = cycle_count st + n"
  by (induction n) simp_all


section \<open>The example session, evaluated\<close>

lemma example_session:
  "map_option fst (start_grid_trading example_env example_config) =
     Some (Returned \<lparr>success = True, cycles = 1, total_buy_orders = 10, total_sell_orders = 10,
       buy_fills = 5, sell_fills = 5, orders_cancelled = 10, total_trades = 10\<rparr>)"
  by code_simp

lemma hostile_session:
  "map_option fst (start_grid_trading hostile_env example_config) =
     Some (Returned \<lparr>success = True, cycles = 2, total_buy_orders = 2, total_sell_orders = 0,
       buy_fills = 1, sell_fills = 0, orders_cancelled = 0, total_trades = 1\<rparr>)"
  by code_simp

lemma example_config_valid: "valid_config example_config"
  by (simp add: valid_config_def example_config_def validate_symbol_def isupper_def
      is_upper_def is_lower_def endswith_def valid_quotes_def validate_quantity_def
      validate_price_def)

lemma flaky_keys:
  "dict_keys (grid_orders (place_initial_grid flaky_env example_config initial_state)) =
     [0, 2, 4, 6, 8]"
  by code_simp



lemma thirds_run:
  "fst (execute_twap_order thirds_market ''BTCUSDT'' ''buy'' 1 3 5) =
     Returned \<lparr>twap_success = False, total_chunks = 3, executed_chunks = 2, failed_chunks = 1,
       target_quantity = 1, executed_quantity = 2 / 3,
       executed_orders_out =
         [\<lparr>chunk_number = 1, order_id = 0, executed_qty = 1 / 3, avg_price = 100,
           order_status = ''FILLED''\<rparr>,
          \<lparr>chunk_number = 3, order_id = 2, executed_qty = 1 / 3, avg_price = 102,
           order_status = ''FILLED''\<rparr>],
       failed_orders_out =
         [\<lparr>failed_chunk_number = 2, error_code = Some (- 1021), error_message = ''timestamp''\<rparr>],
       avg_execution_price = 101\<rparr>"
  by code_simp


lemma subcent_valid: "valid_config subcent_config"
  by (simp add: valid_config_def subcent_config_def validate_symbol_def isupper_def
      is_upper_def is_lower_def endswith_def valid_quotes_def validate_quantity_def
      validate_price_def)

lemma example_tracker_after_cycle:
  "map (price \<circ> snd) (grid_orders ((monitor_cycle example_env example_config ^^ 1)
      (place_initial_grid example_env example_config initial_state))) =
   [42000, 44000, 46000, 48000, 50000, 48000, 46000, 44000, 42000, 40000]"
  by code_simp




section \<open>Validation failures\<close>

text \<open>
  C4. If the symbol is malformed, or the quantity per level, the lower bound or the upper
  bound is not positive, or the upper bound is not above the lower bound, or the number of
  grids is not positive, then \<open>start_grid_trading\<close> returns the failure value in the
  initial state: no order was created, no open orders were fetched, nothing was cancelled
  and the tracker is empty.
\<close>

theorem grid_invalid_config_no_gateway_call:
  fixes env :: "'k grid_env"
  shows "\<not> validate_symbol (symbol c) \<or> quantity_per_grid c \<le> 0 \<or> lower_bound c \<le> 0 \<or>
     upper_bound c \<le> 0 \<or> upper_bound c \<le> lower_bound c \<or> num_grids c \<le> 0 \<Longrightarrow>
   start_grid_trading env c = Some (Failed, initial_state) \<and>
   created (initial_state :: 'k grid_state) = [] \<and>
   fetched (initial_state :: 'k grid_state) = 0 \<and>
   cancel_calls (initial_state :: 'k grid_state) = [] \<and>
   grid_orders (initial_state :: 'k grid_state) = []"
  by (auto simp: start_grid_trading_def validate_quantity_def validate_price_def
      initial_state_def)

theorem grid_invalid_config_no_gateway_call_witness:
  "upper_bound inverted_config \<le> lower_bound inverted_config \<and>
   start_grid_trading example_env inverted_config = Some (Failed, initial_state) \<and>
   created (initial_state :: nat grid_state) = []"
proof -
  have h: "upper_bound inverted_config \<le> lower_bound inverted_config"
    by (simp add: inverted_config_def)
  then have "\<not> validate_symbol (symbol inverted_config) \<or>
     quantity_per_grid inverted_config \<le> 0 \<or> lower_bound inverted_config \<le> 0 \<or>
     upper_bound inverted_config \<le> 0 \<or>
     upper_bound inverted_config \<le> lower_bound inverted_config \<or>
     num_grids inverted_config \<le> 0"
    by blast
  from grid_invalid_config_no_gateway_call [OF this, of example_env] h
  show ?thesis by blast
qed

section \<open>The returned summary\<close>

text \<open>
  C10. Whenever \<open>start_grid_trading\<close> returns a summary, its \<open>success\<close> field is
  \<open>True\<close> and \<open>total_trades\<close> is the sum of \<open>buy_fills\<close> and \<open>sell_fills\<close>,
  whatever the gateway answered during the session. In the session evaluated after the
  theorem a replacement is rejected, a cycle fails to fetch the open orders and the
  cancellation at shutdown fails.
\<close>

theorem grid_summary_always_success:
  "start_grid_trading env c = Some (Returned s, st) \<Longrightarrow>
     success s \<and> total_trades s = buy_fills s + sell_fills s"
  by (auto simp: start_grid_trading_def summarize_def Let_def split: if_splits)

theorem grid_summary_always_success_witness:
  "create_order hostile_env 10 = ApiError (- 2010) ''rejected'' \<and>
   get_open_orders hostile_env 1 = ApiError (- 1003) ''rate limit'' \<and>
   cancel_order hostile_env 0 = OtherError ''connection reset'' \<and>
   map_option fst (start_grid_trading hostile_env example_config) =
     Some (Returned \<lparr>success = True, cycles = 2, total_buy_orders = 2, total_sell_orders = 0,
       buy_fills = 1, sell_fills = 0, orders_cancelled = 0, total_trades = 1\<rparr>) \<and>
   success \<lparr>success = True, cycles = 2, total_buy_orders = 2, total_sell_orders = 0,
       buy_fills = 1, sell_fills = 0, orders_cancelled = 0, total_trades = 1\<rparr> \<and>
   total_trades \<lparr>success = True, cycles = 2, total_buy_orders = 2, total_sell_orders = 0,
       buy_fills = 1, sell_fills = 0, orders_cancelled = 0, total_trades = 1\<rparr> =
     buy_fills \<lparr>success = True, cycles = 2, total_buy_orders = 2, total_sell_orders = 0,
       buy_fills = 1, sell_fills = 0, orders_cancelled = 0, total_trades = 1\<rparr> +
     sell_fills \<lparr>success = True, cycles = 2, total_buy_orders = 2, total_sell_orders = 0,
       buy_fills = 1, sell_fills = 0, orders_cancelled = 0, total_trades = 1\<rparr>"
proof -
  have env: "create_order hostile_env 10 = ApiError (- 2010) ''rejected''"
    "get_open_orders hostile_env 1 = ApiError (- 1003) ''rate limit''"
    "cancel_order hostile_env 0 = OtherError ''connection reset''"
    by (simp_all add: hostile_env_def)
  from hostile_session obtain st where
    "start_grid_trading hostile_env example_config =
       Some (Returned \<lparr>success = True, cycles = 2, total_buy_orders = 2, total_sell_orders = 0,
         buy_fills = 1, sell_fills = 0, orders_cancelled = 0, total_trades = 1\<rparr>, st)"
    by auto
  from grid_summary_always_success [OF this] env hostile_session show ?thesis by blast
qed

section \<open>Dictionary operations\<close>

lemma dict_set_keys [simp]: "set (dict_keys (dict_set d k v)) = insert k (set (dict_keys d))"
proof (induction d)
  case Nil
  then show ?case by (simp add: dict_keys_def)
next
  case (Cons kv d)
  obtain k' v' where kv: "kv = (k', v')" by (cases kv)
  from Cons show ?case
    unfolding kv dict_keys_def by (cases "k' = k") (simp_all add: insert_commute)
qed

lemma dict_set_nonempty [simp]: "dict_set d k v \<noteq> []"
  by (cases d) (auto split: if_splits)

lemma map_of_dict_set [simp]: "map_of (dict_set d k v) k' = (if k' = k then Some v else map_of d k')"
  by (induction d) auto

section \<open>Initial placement\<close>

lemma place_and_track_orders:
  "grid_orders (place_and_track env c st ord) =
     (case create_order env (length (created st)) of
        Ok k \<Rightarrow> dict_set (grid_orders st) k ord | _ \<Rightarrow> grid_orders st)"
  by (simp add: place_and_track_def futures_create_order_def Let_def split: reply.splits)

lemma foldl_place_created:
  "created (foldl (place_and_track env c) st os) = created st @ map (\<lambda>ord. limit_order c (side ord) (quantity ord) (price ord)) os"
  by (induction os arbitrary: st) simp_all

lemma foldl_place_frame [simp]:
  "cycle_count (foldl (place_and_track env c) st os) = cycle_count st"
  "fetched (foldl (place_and_track env c) st os) = fetched st"
  "cancel_calls (foldl (place_and_track env c) st os) = cancel_calls st"
  "total_buy_fills (foldl (place_and_track env c) st os) = total_buy_fills st"
  "total_sell_fills (foldl (place_and_track env c) st os) = total_sell_fills st"
  by (induction os arbitrary: st; simp)+

lemma foldl_place_keys:
  "set (dict_keys (grid_orders (foldl (place_and_track env c) st os))) =
     set (dict_keys (grid_orders st)) \<union>
     {k. \<exists>i<length os. create_order env (length (created st) + i) = Ok k}"
proof (induction os rule: rev_induct)
  case Nil
  then show ?case by simp
next
  case (snoc ord os)
  show ?case
    by (cases "create_order env (length (created st) + length os)")
      (auto simp: place_and_track_orders foldl_place_created snoc.IH less_Suc_eq)
qed


lemma length_initial_ladder [simp]: "length (initial_ladder c) = 2 * nat (num_grids c)"
  by (simp add: initial_ladder_def)

lemma grid_step_pos: "valid_config c \<Longrightarrow> 0 < grid_step c"
  by (simp add: valid_config_def grid_step_def)


lemma place_initial_created:
  "created (place_initial_grid env c initial_state) =
     map (\<lambda>ord. limit_order c (side ord) (quantity ord) (price ord)) (initial_ladder c)"
  by (simp add: place_initial_grid_def foldl_place_created initial_state_def)

lemma place_initial_keys:
  "set (dict_keys (grid_orders (place_initial_grid env c initial_state))) =
     {k. \<exists>i<2 * nat (num_grids c). create_order env i = Ok k}"
  by (simp add: place_initial_grid_def foldl_place_keys) (simp add: initial_state_def dict_keys_def)




text \<open>
  C9. For every valid configuration all \<open>2 * num_grids\<close> placements are attempted
  whatever the earlier ones answered, the tracker holds exactly the ids of the accepted
  ones, and \<open>start_grid_trading\<close> returns the failure value if and only if none of the
  attempts was accepted; otherwise it enters the monitoring loop with the populated state.
\<close>

theorem initial_placement_failures_tolerated:
  fixes env :: "'k grid_env"
  assumes "valid_config c"
  defines "n \<equiv> nat (num_grids c)"
    and "st1 \<equiv> place_initial_grid env c initial_state"
  shows "length (created st1) = 2 * n \<and>
    set (dict_keys (grid_orders st1)) = {k. \<exists>i<2 * n. create_order env i = Ok k} \<and>
    ((\<exists>st. start_grid_trading env c = Some (Failed, st)) \<longleftrightarrow>
       (\<forall>i<2 * n. \<forall>k. create_order env i \<noteq> Ok k)) \<and>
    ((\<exists>i<2 * n. \<exists>k. create_order env i = Ok k) \<longrightarrow>
       start_grid_trading env c =
         map_option (\<lambda>st2. let r = cancel_remaining env st2 in (Returned (summarize r), fst r))
           (monitor_loop env c st1))"
proof -
  have len: "length (created st1) = 2 * n"
    by (simp add: st1_def n_def place_initial_created)
  have keys: "set (dict_keys (grid_orders st1)) = {k. \<exists>i<2 * n. create_order env i = Ok k}"
    by (simp add: st1_def n_def place_initial_keys)
  have empty: "length (grid_orders st1) = 0 \<longleftrightarrow> (\<forall>i<2 * n. \<forall>k. create_order env i \<noteq> Ok k)"
  proof -
    have "length (grid_orders st1) = 0 \<longleftrightarrow> set (dict_keys (grid_orders st1)) = {}"
      by (simp add: dict_keys_def)
    also have "\<dots> \<longleftrightarrow> (\<forall>i<2 * n. \<forall>k. create_order env i \<noteq> Ok k)"
      unfolding keys by blast
    finally show ?thesis .
  qed
  have run: "start_grid_trading env c =
      (if length (grid_orders st1) = 0 then Some (Failed, st1)
       else map_option (\<lambda>st2. let r = cancel_remaining env st2 in (Returned (summarize r), fst r))
           (monitor_loop env c st1))"
    using assms(1) by (simp add: start_grid_trading_def valid_config_def st1_def Let_def)
  have fail: "(\<exists>st. start_grid_trading env c = Some (Failed, st)) \<longleftrightarrow>
       (\<forall>i<2 * n. \<forall>k. create_order env i \<noteq> Ok k)"
    unfolding run empty [symmetric] by (auto simp: Let_def)
  have go: "start_grid_trading env c =
         map_option (\<lambda>st2. let r = cancel_remaining env st2 in (Returned (summarize r), fst r))
           (monitor_loop env c st1)" if "\<exists>i<2 * n. \<exists>k. create_order env i = Ok k"
    using that empty run by auto
  from len keys fail go show ?thesis by blast
qed

theorem initial_placement_failures_tolerated_witness:
  "valid_config example_config \<and>
   length (created (place_initial_grid flaky_env example_config initial_state)) = 10 \<and>
   dict_keys (grid_orders (place_initial_grid flaky_env example_config initial_state)) =
     [0, 2, 4, 6, 8] \<and>
   start_grid_trading flaky_env example_config \<noteq>
     Some (Failed, place_initial_grid flaky_env example_config initial_state)"
proof -
  note T = initial_placement_failures_tolerated [OF example_config_valid, of flaky_env]
  have n: "nat (num_grids example_config) = 5"
    by (simp add: example_config_def)
  from T n have len:
    "length (created (place_initial_grid flaky_env example_config initial_state)) = 10"
    by simp
  have "create_order flaky_env 0 = Ok 0" by (simp add: flaky_env_def)
  then have "\<not> (\<forall>i<2 * nat (num_grids example_config). \<forall>k. create_order flaky_env i \<noteq> Ok k)"
    unfolding n by (intro notI) (drule spec [of _ 0], simp)
  with T have "start_grid_trading flaky_env example_config \<noteq>
     Some (Failed, place_initial_grid flaky_env example_config initial_state)"
    by blast
  with example_config_valid len flaky_keys show ?thesis by blast
qed

section \<open>TWAP execution\<close>

lemma submitted_append [simp]: "submitted (xs @ ys) = submitted xs @ submitted ys"
  by (induction xs rule: submitted.induct) simp_all

lemma sleeps_append [simp]: "sleeps (xs @ ys) = sleeps xs @ sleeps ys"
  by (induction xs rule: sleeps.induct) simp_all

lemma twap_chunk_fields:
  "events (twap_chunk mr symb sd q n iv st i) =
     events st @ (if int i + 1 < n then [Submit (market_order symb sd q), Sleep iv]
                  else [Submit (market_order symb sd q)])"
  "executed_orders (twap_chunk mr symb sd q n iv st i) =
     executed_orders st @
       (case mr i of
          Ok r \<Rightarrow> [\<lparr>chunk_number = int i + 1, order_id = orderId r, executed_qty = executedQty r,
                     avg_price = avgPrice r, order_status = status r\<rparr>]
        | _ \<Rightarrow> [])"
  "failed_orders (twap_chunk mr symb sd q n iv st i) =
     failed_orders st @
       (case mr i of
          Ok r \<Rightarrow> []
        | ApiError code message \<Rightarrow>
            [\<lparr>failed_chunk_number = int i + 1, error_code = Some code, error_message = message\<rparr>]
        | OtherError message \<Rightarrow>
            [\<lparr>failed_chunk_number = int i + 1, error_code = None, error_message = message\<rparr>])"
  "total_executed_qty (twap_chunk mr symb sd q n iv st i) =
     total_executed_qty st + (case mr i of Ok r \<Rightarrow> executedQty r | _ \<Rightarrow> 0)"
  by (simp_all add: twap_chunk_def Let_def split: reply.splits)

lemma twap_fold_fields:
  "events (foldl (twap_chunk mr symb sd q n iv) st [0..<m]) =
     events st @ concat (map (\<lambda>i. if int i + 1 < n
        then [Submit (market_order symb sd q), Sleep iv]
        else [Submit (market_order symb sd q)]) [0..<m])"
  "executed_orders (foldl (twap_chunk mr symb sd q n iv) st [0..<m]) =
     executed_orders st @ concat (map (\<lambda>i. case mr i of
          Ok r \<Rightarrow> [\<lparr>chunk_number = int i + 1, order_id = orderId r, executed_qty = executedQty r,
                     avg_price = avgPrice r, order_status = status r\<rparr>]
        | _ \<Rightarrow> []) [0..<m])"
  "failed_orders (foldl (twap_chunk mr symb sd q n iv) st [0..<m]) =
     failed_orders st @ concat (map (\<lambda>i. case mr i of
          Ok r \<Rightarrow> []
        | ApiError code message \<Rightarrow>
            [\<lparr>failed_chunk_number = int i + 1, error_code = Some code, error_message = message\<rparr>]
        | OtherError message \<Rightarrow>
            [\<lparr>failed_chunk_number = int i + 1, error_code = None, error_message = message\<rparr>])
        [0..<m])"
  "total_executed_qty (foldl (twap_chunk mr symb sd q n iv) st [0..<m]) =
     total_executed_qty st + (\<Sum>i\<leftarrow>[0..<m]. case mr i of Ok r \<Rightarrow> executedQty r | _ \<Rightarrow> 0)"
  by (induction m; simp add: twap_chunk_fields)+

lemma executed_qty_sum:
  "(\<Sum>order\<leftarrow>concat (map (\<lambda>i. case mr i of
          Ok r \<Rightarrow> [\<lparr>chunk_number = int i + 1, order_id = orderId r, executed_qty = executedQty r,
                     avg_price = avgPrice r, order_status = status r\<rparr>]
        | _ \<Rightarrow> []) [0..<m]). executed_qty order) =
   (\<Sum>i\<leftarrow>[0..<m]. case mr i of Ok r \<Rightarrow> executedQty r | _ \<Rightarrow> 0)"
  by (induction m) (simp_all split: reply.splits)

lemma twap_run_total:
  "total_executed_qty (twap_run mr symb sd tq n iv) =
     sum_list (map executed_qty (executed_orders (twap_run mr symb sd tq n iv)))"
  by (simp add: twap_run_def twap_fold_fields twap_start_def executed_qty_sum)

lemma twap_all_failed:
  "\<forall>i<m. \<forall>r. mr i \<noteq> Ok r \<Longrightarrow>
   concat (map (\<lambda>i. case mr i of
          Ok r \<Rightarrow> [\<lparr>chunk_number = int i + 1, order_id = orderId r, executed_qty = executedQty r,
                     avg_price = avgPrice r, order_status = status r\<rparr>]
        | _ \<Rightarrow> []) [0..<m]) = [] \<and>
   length (concat (map (\<lambda>i. case mr i of
          Ok r \<Rightarrow> []
        | ApiError code message \<Rightarrow>
            [\<lparr>failed_chunk_number = int i + 1, error_code = Some code, error_message = message\<rparr>]
        | OtherError message \<Rightarrow>
            [\<lparr>failed_chunk_number = int i + 1, error_code = None, error_message = message\<rparr>])
        [0..<m])) = m"
  by (induction m) (auto split: reply.splits)

lemma twap_returned:
  "execute_twap_order mr symb sd tq n iv = (Returned s, ev) \<Longrightarrow>
   0 < n \<and> s = twap_report tq n (twap_run mr symb sd tq n iv) \<and>
   ev = events (twap_run mr symb sd tq n iv)"
  by (auto simp: execute_twap_order_def Let_def split: if_splits)

text \<open>
  C5. In the summary returned by \<open>execute_twap_order\<close>, the executed quantity is the sum
  of the executed quantities of the successful chunks (those the gateway answered with
  \<open>Ok\<close>); the average execution price is the sum of quantity times price over the
  successful chunks divided by the executed quantity when that is positive, and 0
  otherwise; \<open>success\<close> holds exactly when no chunk failed; and when every chunk fails the
  average price is 0 and \<open>success\<close> is false. Arithmetic is exact (reals for floats).
\<close>

theorem twap_summary_aggregation:
  assumes "execute_twap_order mr symb sd tq n iv = (Returned s, ev)"
  shows "executed_quantity s = sum_list (map executed_qty (executed_orders_out s)) \<and>
    executed_quantity s = (\<Sum>i\<leftarrow>[0..<nat n]. case mr i of Ok r \<Rightarrow> executedQty r | _ \<Rightarrow> 0) \<and>
    avg_execution_price s =
      (if executed_quantity s > 0
       then (\<Sum>order\<leftarrow>executed_orders_out s. executed_qty order * avg_price order) /
              executed_quantity s
       else 0) \<and>
    (twap_success s \<longleftrightarrow> failed_chunks s = 0) \<and>
    ((\<forall>i<nat n. \<forall>r. mr i \<noteq> Ok r) \<longrightarrow> avg_execution_price s = 0 \<and> \<not> twap_success s)"
proof -
  let ?st = "twap_run mr symb sd tq n iv"
  from twap_returned [OF assms] have n: "0 < n" and s: "s = twap_report tq n ?st"
    by simp_all
  have q1: "executed_quantity s = sum_list (map executed_qty (executed_orders_out s))"
    by (simp add: s twap_report_def twap_run_total)
  have q2: "executed_quantity s =
      (\<Sum>i\<leftarrow>[0..<nat n]. case mr i of Ok r \<Rightarrow> executedQty r | _ \<Rightarrow> 0)"
    by (simp add: s twap_report_def twap_run_def twap_fold_fields twap_start_def)
  have empty: "total_executed_qty ?st = 0" if "executed_orders ?st = []"
    using that by (simp add: twap_run_total)
  have avg: "avg_execution_price s =
      (if executed_quantity s > 0
       then (\<Sum>order\<leftarrow>executed_orders_out s. executed_qty order * avg_price order) /
              executed_quantity s
       else 0)"
    using empty by (auto simp: s twap_report_def total_value_def)
  have ok: "twap_success s \<longleftrightarrow> failed_chunks s = 0"
    by (simp add: s twap_report_def)
  have allfail: "avg_execution_price s = 0 \<and> \<not> twap_success s"
    if "\<forall>i<nat n. \<forall>r. mr i \<noteq> Ok r"
  proof -
    from twap_all_failed [OF that] n
    have "executed_orders ?st = []" and "length (failed_orders ?st) = nat n"
      by (simp_all add: twap_run_def twap_fold_fields twap_start_def)
    with n show ?thesis
      by (simp add: s twap_report_def)
  qed
  from q1 q2 avg ok allfail show ?thesis by blast
qed

theorem twap_summary_aggregation_witness:
  "fst (execute_twap_order thirds_market ''BTCUSDT'' ''buy'' 1 3 5) =
     Returned \<lparr>twap_success = False, total_chunks = 3, executed_chunks = 2, failed_chunks = 1,
       target_quantity = 1, executed_quantity = 2 / 3,
       executed_orders_out =
         [\<lparr>chunk_number = 1, order_id = 0, executed_qty = 1 / 3, avg_price = 100,
           order_status = ''FILLED''\<rparr>,
          \<lparr>chunk_number = 3, order_id = 2, executed_qty = 1 / 3, avg_price = 102,
           order_status = ''FILLED''\<rparr>],
       failed_orders_out =
         [\<lparr>failed_chunk_number = 2, error_code = Some (- 1021), error_message = ''timestamp''\<rparr>],
       avg_execution_price = 101\<rparr> \<and>
   (2 / 3 :: real) = sum_list [1 / 3, 1 / 3] \<and>
   (101 :: real) = (1 / 3 * 100 + 1 / 3 * 102) / (2 / 3)"
proof -
  obtain ev where "execute_twap_order thirds_market ''BTCUSDT'' ''buy'' 1 3 5 =
     (Returned \<lparr>twap_success = False, total_chunks = 3, executed_chunks = 2, failed_chunks = 1,
       target_quantity = 1, executed_quantity = 2 / 3,
       executed_orders_out =
         [\<lparr>chunk_number = 1, order_id = 0, executed_qty = 1 / 3, avg_price = 100,
           order_status = ''FILLED''\<rparr>,
          \<lparr>chunk_number = 3, order_id = 2, executed_qty = 1 / 3, avg_price = 102,
           order_status = ''FILLED''\<rparr>],
       failed_orders_out =
         [\<lparr>failed_chunk_number = 2, error_code = Some (- 1021), error_message = ''timestamp''\<rparr>],
       avg_execution_price = 101\<rparr>, ev)"
    using thirds_run by (cases "execute_twap_order thirds_market ''BTCUSDT'' ''buy'' 1 3 5") simp
  from twap_summary_aggregation [OF this]
  have "(2 / 3 :: real) = sum_list [1 / 3, 1 / 3]"
    and "(101 :: real) = (1 / 3 * 100 + 1 / 3 * 102) / (2 / 3)"
    by simp_all
  with thirds_run show ?thesis by blast
qed






section \<open>Sessions that return\<close>

text \<open>Whatever the loop returns is the state after the cycles up to the first cleared flag.\<close>

lemma monitor_loop_returns_first:
  fixes env :: "'k grid_env"
  assumes "monitor_loop env c st = Some st'"
  shows "\<exists>n. st' = (monitor_cycle env c ^^ n) st \<and>
    (\<forall>k<n. grid_running env (cycle_count st + k)) \<and> \<not> grid_running env (cycle_count st + n)"
proof (rule monitor_loop.raw_induct [OF _ assms])
  fix loop :: "'k grid_env \<Rightarrow> grid_config \<Rightarrow> 'k grid_state \<Rightarrow> 'k grid_state option"
    and e cf s s'
  assume IH: "\<And>e cf s s'. loop e cf s = Some s' \<Longrightarrow>
     \<exists>n. s' = (monitor_cycle e cf ^^ n) s \<and>
       (\<forall>k<n. grid_running e (cycle_count s + k)) \<and> \<not> grid_running e (cycle_count s + n)"
  assume eq: "(if grid_running e (cycle_count s)
     then loop e cf (monitor_cycle e cf s) else Some s) = Some s'"
  show "\<exists>n. s' = (monitor_cycle e cf ^^ n) s \<and>
       (\<forall>k<n. grid_running e (cycle_count s + k)) \<and> \<not> grid_running e (cycle_count s + n)"
  proof (cases "grid_running e (cycle_count s)")
    case True
    with eq have "loop e cf (monitor_cycle e cf s) = Some s'" by simp
    from IH [OF this] obtain n where n:
      "s' = (monitor_cycle e cf ^^ n) (monitor_cycle e cf s)"
      "\<forall>k<n. grid_running e (cycle_count s + 1 + k)"
      "\<not> grid_running e (cycle_count s + 1 + n)" by auto
    have "\<forall>k<Suc n. grid_running e (cycle_count s + k)"
    proof (intro allI impI)
      fix k assume "k < Suc n"
      show "grid_running e (cycle_count s + k)"
      proof (cases k)
        case 0
        with True show ?thesis by simp
      next
        case (Suc j)
        with \<open>k < Suc n\<close> n(2) show ?thesis by simp
      qed
    qed
    with n(1,3) have "s' = (monitor_cycle e cf ^^ Suc n) s \<and>
       (\<forall>k<Suc n. grid_running e (cycle_count s + k)) \<and>
       \<not> grid_running e (cycle_count s + Suc n)"
      by (simp add: funpow_swap1)
    then show ?thesis by blast
  next
    case False
    with eq have "s' = s" by simp
    with False have "s' = (monitor_cycle e cf ^^ 0) s \<and>
       (\<forall>k<0. grid_running e (cycle_count s + k)) \<and> \<not> grid_running e (cycle_count s + 0)"
      by simp
    then show ?thesis by blast
  qed
qed

lemma cancel_fold:
  "fst (foldl (cancel_one env) (st, m) ks) = st\<lparr>cancel_calls := cancel_calls st @ ks\<rparr>"
  by (induction ks arbitrary: st m) (simp_all add: cancel_one_def Let_def split: reply.splits)

lemma cancel_remaining_state:
  "fst (cancel_remaining env st) =
     st\<lparr>cancel_calls := cancel_calls st @ dict_keys (grid_orders st)\<rparr>"
  by (simp add: cancel_remaining_def cancel_fold)

lemma place_initial_frame [simp]:
  "cycle_count (place_initial_grid env c st) = cycle_count st"
  "fetched (place_initial_grid env c st) = fetched st"
  "cancel_calls (place_initial_grid env c st) = cancel_calls st"
  by (simp_all add: place_initial_grid_def)

lemma fetched_funpow [simp]:
  "fetched ((monitor_cycle env c ^^ n) st) = fetched st + n"
  by (induction n) simp_all

lemma cancel_calls_funpow [simp]:
  "cancel_calls ((monitor_cycle env c ^^ n) st) = cancel_calls st"
  by (induction n) simp_all

lemma initial_state_fields [simp]:
  "cycle_count initial_state = 0" "fetched initial_state = 0"
  "cancel_calls initial_state = []" "created initial_state = []"
  "grid_orders initial_state = []"
  by (simp_all add: initial_state_def)

lemma start_grid_valid:
  "valid_config c \<Longrightarrow>
   start_grid_trading env c =
     (if length (grid_orders (place_initial_grid env c initial_state)) = 0
      then Some (Failed, place_initial_grid env c initial_state)
      else map_option (\<lambda>st2. (Returned (summarize (cancel_remaining env st2)),
                               fst (cancel_remaining env st2)))
             (monitor_loop env c (place_initial_grid env c initial_state)))"
  by (simp add: start_grid_trading_def valid_config_def Let_def)


lemma summarize_cycles [simp]:
  "cycles (summarize r) = cycle_count (fst r)"
  by (simp add: summarize_def Let_def)



section \<open>Shutdown\<close>















section \<open>Prices of tracked orders\<close>

lemma round_half_even_bounds:
  "\<lfloor>y\<rfloor> \<le> round_half_even y" "round_half_even y \<le> \<lfloor>y\<rfloor> + 1"
  by (simp_all add: round_half_even_def Let_def)

lemma round_half_even_mono:
  assumes "x \<le> y"
  shows "round_half_even x \<le> round_half_even y"
proof (cases "\<lfloor>x\<rfloor> < \<lfloor>y\<rfloor>")
  case True
  have "round_half_even x \<le> \<lfloor>x\<rfloor> + 1" by (rule round_half_even_bounds)
  also have "\<dots> \<le> \<lfloor>y\<rfloor>" using True by simp
  also have "\<dots> \<le> round_half_even y" by (rule round_half_even_bounds)
  finally show ?thesis .
next
  case False
  with floor_mono [OF assms] have f: "\<lfloor>x\<rfloor> = \<lfloor>y\<rfloor>" by simp
  then have "x - of_int \<lfloor>x\<rfloor> \<le> y - of_int \<lfloor>y\<rfloor>" using assms by simp
  then show ?thesis
    unfolding round_half_even_def Let_def f by (auto split: if_splits)
qed

lemma round2_mono: "x \<le> y \<Longrightarrow> round2 x \<le> round2 y"
  by (simp add: round2_def round_half_even_mono divide_right_mono)

lemma dict_set_subset: "set (dict_set d k v) \<subseteq> insert (k, v) (set d)"
  by (induction d) (auto split: if_splits)

lemma dict_del_subset: "set (dict_del d k) \<subseteq> set d"
  by (auto simp: dict_del_def)

lemma place_and_track_within:
  assumes "\<forall>ko\<in>set (grid_orders st). lo \<le> price (snd ko) \<and> price (snd ko) \<le> hi"
    and "lo \<le> price ord" "price ord \<le> hi"
  shows "\<forall>ko\<in>set (grid_orders (place_and_track env c st ord)).
           lo \<le> price (snd ko) \<and> price (snd ko) \<le> hi"
proof (cases "create_order env (length (created st))")
  case (Ok k)
  then have "set (grid_orders (place_and_track env c st ord)) \<subseteq> insert (k, ord) (set (grid_orders st))"
    by (simp add: place_and_track_orders dict_set_subset)
  with assms show ?thesis by fastforce
qed (use assms in \<open>simp_all add: place_and_track_orders\<close>)

lemma handle_fill_within:
  assumes "\<forall>ko\<in>set (grid_orders st). lo \<le> price (snd ko) \<and> price (snd ko) \<le> hi"
    and "lo \<le> lower_bound c" "upper_bound c \<le> hi"
  shows "\<forall>ko\<in>set (grid_orders (handle_fill env c st k info)).
           lo \<le> price (snd ko) \<and> price (snd ko) \<le> hi"
proof -
  let ?st1 = "if side info = BUY then st\<lparr>total_buy_fills := total_buy_fills st + 1\<rparr>
              else st\<lparr>total_sell_fills := total_sell_fills st + 1\<rparr>"
  let ?st2 = "?st1\<lparr>grid_orders := dict_del (grid_orders ?st1) k\<rparr>"
  have g: "grid_orders ?st2 = dict_del (grid_orders st) k" by simp
  have inv2: "\<forall>ko\<in>set (grid_orders ?st2). lo \<le> price (snd ko) \<and> price (snd ko) \<le> hi"
    unfolding g using assms(1) dict_del_subset [of "grid_orders st" k] by blast
  show ?thesis
  proof (cases "price (mirror_order c info) < lower_bound c \<or>
                price (mirror_order c info) > upper_bound c")
    case True
    then have "handle_fill env c st k info = ?st2"
      by (simp add: handle_fill_def Let_def)
    with inv2 show ?thesis by simp
  next
    case False
    then have h: "handle_fill env c st k info = place_and_track env c ?st2 (mirror_order c info)"
      by (simp add: handle_fill_def Let_def)
    show ?thesis
      unfolding h using inv2 False assms(2,3) by (intro place_and_track_within) auto
  qed
qed

lemma process_filled_within:
  assumes "\<forall>ko\<in>set (grid_orders st). lo \<le> price (snd ko) \<and> price (snd ko) \<le> hi"
    and "lo \<le> lower_bound c" "upper_bound c \<le> hi"
  shows "\<forall>ko\<in>set (grid_orders (fst (process_filled env c st ks))).
           lo \<le> price (snd ko) \<and> price (snd ko) \<le> hi"
  using assms(1)
proof (induction ks arbitrary: st)
  case Nil
  then show ?case by simp
next
  case (Cons k ks)
  show ?case
  proof (cases "map_of (grid_orders st) k")
    case None
    with Cons.prems show ?thesis by simp
  next
    case (Some info)
    have "\<forall>ko\<in>set (grid_orders (fst (process_filled env c (handle_fill env c st k info) ks))).
           lo \<le> price (snd ko) \<and> price (snd ko) \<le> hi"
      by (rule Cons.IH) (rule handle_fill_within [OF Cons.prems assms(2,3)])
    with Some show ?thesis by simp
  qed
qed

lemma monitor_cycle_within:
  assumes "\<forall>ko\<in>set (grid_orders st). lo \<le> price (snd ko) \<and> price (snd ko) \<le> hi"
    and "lo \<le> lower_bound c" "upper_bound c \<le> hi"
  shows "\<forall>ko\<in>set (grid_orders (monitor_cycle env c st)).
           lo \<le> price (snd ko) \<and> price (snd ko) \<le> hi"
proof (cases "get_open_orders env (fetched st)")
  case (Ok ids)
  let ?st1 = "st\<lparr>cycle_count := cycle_count st + 1, fetched := fetched st + 1\<rparr>"
  have "monitor_cycle env c st = fst (process_filled env c ?st1 (filled_order_ids ?st1 ids))"
    by (simp add: monitor_cycle_def cycle_body_def Let_def Ok)
  moreover have "\<forall>ko\<in>set (grid_orders ?st1). lo \<le> price (snd ko) \<and> price (snd ko) \<le> hi"
    using assms(1) by simp
  ultimately show ?thesis
    using process_filled_within [OF _ assms(2,3)] by metis
qed (use assms(1) in \<open>simp_all add: monitor_cycle_def cycle_body_def Let_def\<close>)

lemma funpow_cycle_within:
  assumes "\<forall>ko\<in>set (grid_orders st). lo \<le> price (snd ko) \<and> price (snd ko) \<le> hi"
    and "lo \<le> lower_bound c" "upper_bound c \<le> hi"
  shows "\<forall>ko\<in>set (grid_orders ((monitor_cycle env c ^^ n) st)).
           lo \<le> price (snd ko) \<and> price (snd ko) \<le> hi"
proof (induction n)
  case 0
  with assms(1) show ?case by simp
next
  case (Suc n)
  from monitor_cycle_within [OF Suc assms(2,3)] show ?case by simp
qed

lemma foldl_place_within:
  assumes "\<forall>ko\<in>set (grid_orders st). lo \<le> price (snd ko) \<and> price (snd ko) \<le> hi"
    and "\<forall>ord\<in>set os. lo \<le> price ord \<and> price ord \<le> hi"
  shows "\<forall>ko\<in>set (grid_orders (foldl (place_and_track env c) st os)).
           lo \<le> price (snd ko) \<and> price (snd ko) \<le> hi"
  using assms
proof (induction os arbitrary: st)
  case Nil
  then show ?case by simp
next
  case (Cons ord os)
  have "\<forall>ko\<in>set (grid_orders (foldl (place_and_track env c) (place_and_track env c st ord) os)).
           lo \<le> price (snd ko) \<and> price (snd ko) \<le> hi"
    using Cons.prems by (intro Cons.IH place_and_track_within) simp_all
  then show ?case by simp
qed

lemma ladder_levels_between:
  assumes "valid_config c" "i < nat (num_grids c)"
  shows "lower_bound c \<le> lower_bound c + of_nat i * grid_step c"
    "lower_bound c + of_nat i * grid_step c \<le> upper_bound c"
    "lower_bound c \<le> upper_bound c - of_nat i * grid_step c"
    "upper_bound c - of_nat i * grid_step c \<le> upper_bound c"
proof -
  from assms(1) have n: "0 < num_grids c" and lu: "lower_bound c < upper_bound c"
    by (simp_all add: valid_config_def)
  have pos: "0 < grid_step c" by (rule grid_step_pos [OF assms(1)])
  have whole: "of_int (num_grids c) * grid_step c = upper_bound c - lower_bound c"
    using n by (simp add: grid_step_def)
  have "real i \<le> of_int (num_grids c)"
    using assms(2) n by (metis less_imp_le_nat nat_le_iff of_int_of_nat_eq of_int_le_iff
        of_nat_le_iff zless_nat_conj nat_less_iff of_nat_nat order_less_imp_le)
  then have le: "of_nat i * grid_step c \<le> upper_bound c - lower_bound c"
    using pos whole by (metis mult_right_mono less_imp_le)
  have ge: "0 \<le> of_nat i * grid_step c"
    using pos by simp
  from le ge show "lower_bound c \<le> lower_bound c + of_nat i * grid_step c"
    "lower_bound c + of_nat i * grid_step c \<le> upper_bound c"
    "lower_bound c \<le> upper_bound c - of_nat i * grid_step c"
    "upper_bound c - of_nat i * grid_step c \<le> upper_bound c"
    by simp_all
qed

lemma initial_ladder_within:
  assumes "valid_config c"
  shows "\<forall>ord\<in>set (initial_ladder c).
    round2 (lower_bound c) \<le> price ord \<and> price ord \<le> round2 (upper_bound c)"
  using ladder_levels_between [OF assms]
  by (auto simp: initial_ladder_def initial_buy_def initial_sell_def intro!: round2_mono)

lemma place_initial_within:
  assumes "valid_config c"
  shows "\<forall>ko\<in>set (grid_orders (place_initial_grid env c initial_state)).
    round2 (lower_bound c) \<le> price (snd ko) \<and> price (snd ko) \<le> round2 (upper_bound c)"
  unfolding place_initial_grid_def
  by (rule foldl_place_within) (simp, rule initial_ladder_within [OF assms])

lemma widen_within:
  "\<forall>ko\<in>set d. lo \<le> price (snd ko) \<and> price (snd ko) \<le> hi \<Longrightarrow> lo' \<le> lo \<Longrightarrow> hi \<le> hi' \<Longrightarrow>
   \<forall>ko\<in>set d. lo' \<le> price (snd ko) \<and> price (snd ko) \<le> hi'"
  for d :: "('k \<times> tracked_order) list"
  by fastforce

text \<open>
  C2 (amended). For a valid configuration and any gateway, after initial placement, after
  every monitoring cycle and in the state the session ends in, the price of every tracked
  order lies between \<open>min lower_bound (round2 lower_bound)\<close> and
  \<open>max upper_bound (round2 upper_bound)\<close>; these are \<open>lower_bound\<close> and \<open>upper_bound\<close>
  themselves whenever both bounds have at most two decimals.
\<close>

theorem tracked_prices_within_rounded_bounds:
  fixes env :: "'k grid_env"
  assumes "valid_config c"
  defines "lo \<equiv> min (lower_bound c) (round2 (lower_bound c))"
    and "hi \<equiv> max (upper_bound c) (round2 (upper_bound c))"
  shows "(\<forall>n. \<forall>ko\<in>set (grid_orders ((monitor_cycle env c ^^ n)
              (place_initial_grid env c initial_state))).
            lo \<le> price (snd ko) \<and> price (snd ko) \<le> hi) \<and>
    (\<forall>r st. start_grid_trading env c = Some (r, st) \<longrightarrow>
       (\<forall>ko\<in>set (grid_orders st). lo \<le> price (snd ko) \<and> price (snd ko) \<le> hi)) \<and>
    (round2 (lower_bound c) = lower_bound c \<and> round2 (upper_bound c) = upper_bound c \<longrightarrow>
       lo = lower_bound c \<and> hi = upper_bound c)"
proof -
  let ?st1 = "place_initial_grid env c initial_state"
  have init: "\<forall>ko\<in>set (grid_orders ?st1). lo \<le> price (snd ko) \<and> price (snd ko) \<le> hi"
    by (rule widen_within [OF place_initial_within [OF assms(1)]]) (simp_all add: lo_def hi_def)
  have cycles: "\<forall>ko\<in>set (grid_orders ((monitor_cycle env c ^^ n) ?st1)).
            lo \<le> price (snd ko) \<and> price (snd ko) \<le> hi" for n
    by (rule funpow_cycle_within [OF init]) (simp_all add: lo_def hi_def)
  have final: "\<forall>ko\<in>set (grid_orders st). lo \<le> price (snd ko) \<and> price (snd ko) \<le> hi"
    if "start_grid_trading env c = Some (r, st)" for r st
  proof (cases "length (grid_orders ?st1) = 0")
    case True
    with that assms(1) have "st = ?st1"
      by (simp add: start_grid_valid)
    with init show ?thesis by simp
  next
    case False
    with that assms(1) obtain st2 where loop: "monitor_loop env c ?st1 = Some st2"
      and st: "st = fst (cancel_remaining env st2)"
      by (auto simp: start_grid_valid)
    from monitor_loop_returns_first [OF loop] obtain n where
      "st2 = (monitor_cycle env c ^^ n) ?st1" by blast
    with cycles [of n] show ?thesis
      by (simp add: st cancel_remaining_state)
  qed
  have exact: "lo = lower_bound c \<and> hi = upper_bound c"
    if "round2 (lower_bound c) = lower_bound c \<and> round2 (upper_bound c) = upper_bound c"
    using that by (simp add: lo_def hi_def)
  from cycles final exact show ?thesis by blast
qed

theorem tracked_prices_within_rounded_bounds_witness:
  "valid_config example_config \<and>
   round2 (lower_bound example_config) = lower_bound example_config \<and>
   round2 (upper_bound example_config) = upper_bound example_config \<and>
   map (price \<circ> snd) (grid_orders ((monitor_cycle example_env example_config ^^ 1)
      (place_initial_grid example_env example_config initial_state))) =
   [42000, 44000, 46000, 48000, 50000, 48000, 46000, 44000, 42000, 40000] \<and>
   list_all (\<lambda>p. 40000 \<le> p \<and> p \<le> 50000)
     [42000, 44000, 46000, 48000, 50000, 48000, 46000, 44000, 42000, 40000 :: real]"
proof -
  have fx: "round2 (lower_bound example_config) = lower_bound example_config"
    "round2 (upper_bound example_config) = upper_bound example_config"
    by (simp_all add: example_config_def round2_def round_half_even_def)
  note T = tracked_prices_within_rounded_bounds [OF example_config_valid, of example_env]
  from T have "\<forall>ko\<in>set (grid_orders ((monitor_cycle example_env example_config ^^ 1)
              (place_initial_grid example_env example_config initial_state))).
      min (lower_bound example_config) (round2 (lower_bound example_config)) \<le> price (snd ko) \<and>
      price (snd ko) \<le> max (upper_bound example_config) (round2 (upper_bound example_config))"
    by blast
  then have "\<forall>p\<in>set (map (price \<circ> snd) (grid_orders ((monitor_cycle example_env example_config ^^ 1)
              (place_initial_grid example_env example_config initial_state)))).
      lower_bound example_config \<le> p \<and> p \<le> upper_bound example_config"
    by (simp add: fx)
  then have "list_all (\<lambda>p. 40000 \<le> p \<and> p \<le> 50000)
     [42000, 44000, 46000, 48000, 50000, 48000, 46000, 44000, 42000, 40000 :: real]"
    unfolding example_tracker_after_cycle by (simp add: example_config_def)
  with example_config_valid fx example_tracker_after_cycle show ?thesis by blast
qed

text \<open>
  C2, as stated, fails for initially placed orders: with a lower bound of 100.004 the first
  BUY order is placed and tracked at 100.00, below the lower bound.
\<close>

theorem initial_price_below_lower_bound_counterexample:
  "valid_config subcent_config \<and>
   grid_orders (place_initial_grid example_env subcent_config initial_state) =
     [(0, \<lparr>side = BUY, price = 100, grid_level = 0, quantity = 1 / 1000\<rparr>),
      (1, \<lparr>side = SELL, price = 200, grid_level = 1, quantity = 1 / 1000\<rparr>)] \<and>
   \<not> lower_bound subcent_config \<le> 100"
proof -
  have "grid_orders (place_initial_grid example_env subcent_config initial_state) =
     [(0, \<lparr>side = BUY, price = 100, grid_level = 0, quantity = 1 / 1000\<rparr>),
      (1, \<lparr>side = SELL, price = 200, grid_level = 1, quantity = 1 / 1000\<rparr>)]"
    by code_simp
  moreover have "\<not> lower_bound subcent_config \<le> 100"
    by (simp add: subcent_config_def)
  ultimately show ?thesis using subcent_valid by blast
qed

section \<open>Fills and mirror orders\<close>








lemma settle_fills_Nil [simp]: "settle_fills st [] = st"
  by (cases st) (simp add: settle_fills_def)



lemma settle_fills_created [simp]: "created (settle_fills st ks) = created st"
  by (simp add: settle_fills_def)






lemma filled_order_ids_frame [simp]:
  "filled_order_ids (st\<lparr>cycle_count := a, fetched := b\<rparr>) ids = filled_order_ids st ids"
  by (simp add: filled_order_ids_def)



lemma settle_fills_fields [simp]:
  "grid_orders (settle_fills st ks) = filter (\<lambda>kv. fst kv \<notin> set ks) (grid_orders st)"
  "total_buy_fills (settle_fills st ks) = total_buy_fills st +
     length (filter (\<lambda>k. side (the (map_of (grid_orders st) k)) = BUY) ks)"
  "total_sell_fills (settle_fills st ks) = total_sell_fills st +
     length (filter (\<lambda>k. side (the (map_of (grid_orders st) k)) \<noteq> BUY) ks)"
  by (simp_all add: settle_fills_def)






end
